theory Spec2Isabelle
  imports Main "HOL-Library.Word"
begin

section \<open>JavaScript values\<close>

text \<open>
  A JavaScript string is a sequence of UTF-16 code units: \<open>length\<close> counts code
  units and \<open>slice\<close> cuts between them. A value of type \<open>string | null\<close> is a
  \<open>jsstring option\<close>, with \<open>None\<close> for \<open>null\<close>.
\<close>

type_synonym jsstring = "16 word list"

text \<open>String literals of the source; all of them are ASCII.\<close>

definition utf16 :: "string \<Rightarrow> jsstring" where
  "utf16 s = map (\<lambda>c. of_nat (of_char c)) s"

text \<open>
  Truthiness of a \<open>string | null\<close>: \<open>null\<close> and the empty string are falsy
  (\<open>!folderId\<close>, \<open>!store.currentChatId\<close>, \<open>x || y\<close>).
\<close>

definition truthy :: "jsstring option \<Rightarrow> bool" where
  "truthy v = (case v of None \<Rightarrow> False | Some s \<Rightarrow> s \<noteq> [])"

text \<open>
  \<open>String.prototype.trim\<close> strips the WhiteSpace and LineTerminator code points
  of ECMAScript from both ends; all of them are single code units.
\<close>

definition isWhiteSpace :: "16 word \<Rightarrow> bool" where
  "isWhiteSpace c =
     (c \<in> {0x0009, 0x000A, 0x000B, 0x000C, 0x000D, 0x0020, 0x00A0, 0x1680,
            0x2028, 0x2029, 0x202F, 0x205F, 0x3000, 0xFEFF}
      \<or> (0x2000 \<le> c \<and> c \<le> 0x200A))"

definition trim :: "jsstring \<Rightarrow> jsstring" where
  "trim s = rev (dropWhile isWhiteSpace (rev (dropWhile isWhiteSpace s)))"

text \<open>
  \<open>Date.now().toString()\<close>: the decimal digits of the milliseconds since the
  epoch.
\<close>

fun toString :: "nat \<Rightarrow> jsstring" where
  "toString n =
     (if n < 10 then [of_nat (48 + n)]
      else toString (n div 10) @ [of_nat (48 + n mod 10)])"

declare toString.simps [simp del]

text \<open>
  The result of \<open>await fetch(...)\<close>: the promise is rejected on a transport
  failure, and otherwise resolves to a response with its \<open>ok\<close> flag, whatever
  the status. The second field is what \<open>await response.json()\<close> gives when
  the code asks for it: \<open>None\<close> when the body is not JSON (the call throws),
  otherwise the field of the body that the code reads.
\<close>

datatype 'b fetch_result = Rejected | Resolved bool "'b option"

section \<open>The data model (types.ts)\<close>

datatype role = User | Assistant

record Message =
  role :: role
  content :: jsstring
  timestamp_m :: "jsstring option"

text \<open>A \<open>Date\<close> is kept as its milliseconds since the epoch.\<close>

record Chat =
  id_c :: jsstring
  title :: jsstring
  messages :: "Message list"
  timestamp_c :: nat
  folderId :: "jsstring option"

text \<open>\<open>isExpanded?: boolean\<close> is optional: \<open>None\<close> is an absent field.\<close>

record Folder =
  id_f :: jsstring
  name :: jsstring
  timestamp_f :: nat
  isExpanded :: "bool option"

record ChatStore =
  chats :: "Chat list"
  folders :: "Folder list"
  currentChatId :: "jsstring option"
  currentFolderId :: "jsstring option"

section \<open>The chat component (Chat.tsx)\<close>

text \<open>The state variables of the component, one field per \<open>useState\<close>.\<close>

record ChatState =
  isDarkMode :: bool
  input :: jsstring
  isLoading :: bool
  store :: ChatStore
  newFolderName :: jsstring
  editingFolderId :: "jsstring option"
  draggedChatId :: "jsstring option"

subsection \<open>Hydration\<close>

datatype js_error = SyntaxError

definition emptyStore :: ChatStore where
  "emptyStore = \<lparr>chats = [], folders = [], currentChatId = None, currentFolderId = None\<rparr>"

text \<open>
  \<open>JSON.parse\<close> is the built-in of the language, not code of the repository, and is
  a parameter: \<open>JSON_parse s = None\<close> when it throws a SyntaxError on \<open>s\<close>,
  and \<open>Some v\<close> when it returns \<open>v\<close>, which the code uses as the store
  without any check. The slot is \<open>localStorage.getItem("chatStore")\<close>, \<open>None\<close>
  when the key is absent.

  The initializer of the \<open>store\<close> state: the whole body is in a
  \<open>try\<close>, whose \<open>catch\<close> logs and falls through to the empty store.
\<close>

definition initialStore :: "(jsstring \<Rightarrow> ChatStore option) \<Rightarrow> jsstring option \<Rightarrow> ChatStore" where
  "initialStore JSON_parse savedStore =
     (case savedStore of
        None \<Rightarrow> emptyStore
      | Some saved \<Rightarrow>
          if saved = [] then emptyStore
          else (case JSON_parse saved of
                  Some parsed \<Rightarrow> parsed
                | None \<Rightarrow> emptyStore))"

definition initialState :: "(jsstring \<Rightarrow> ChatStore option) \<Rightarrow> jsstring option \<Rightarrow> ChatState" where
  "initialState JSON_parse savedStore =
     \<lparr>isDarkMode = False, input = [], isLoading = False,
      store = initialStore JSON_parse savedStore,
      newFolderName = [], editingFolderId = None, draggedChatId = None\<rparr>"

text \<open>
  The first effect, run once after mounting. It reads both slots again; the parse is
  not inside a \<open>try\<close>, so a SyntaxError leaves the effect (\<open>Inl\<close>).
\<close>

definition mountEffect ::
  "(jsstring \<Rightarrow> ChatStore option) \<Rightarrow> jsstring option \<Rightarrow> jsstring option \<Rightarrow> ChatState
     \<Rightarrow> js_error + ChatState" where
  "mountEffect JSON_parse savedDark savedStore st =
     (let st1 = st\<lparr>isDarkMode := (savedDark = Some (utf16 ''true''))\<rparr>
      in case savedStore of
           None \<Rightarrow> Inr st1
         | Some saved \<Rightarrow>
             if saved = [] then Inr st1
             else (case JSON_parse saved of
                     None \<Rightarrow> Inl SyntaxError
                   | Some parsed \<Rightarrow> Inr (st1\<lparr>store := parsed\<rparr>)))"

text \<open>Startup: the state initializers, then the mount effect.\<close>

definition startup ::
  "(jsstring \<Rightarrow> ChatStore option) \<Rightarrow> jsstring option \<Rightarrow> jsstring option
     \<Rightarrow> js_error + ChatState" where
  "startup JSON_parse savedDark savedStore =
     mountEffect JSON_parse savedDark savedStore (initialState JSON_parse savedStore)"

subsection \<open>Creating folders and chats\<close>

text \<open>
  \<open>now\<close> is the value of \<open>Date.now()\<close> and \<open>date\<close> the one of
  \<open>new Date()\<close> at the call.
\<close>

definition createNewFolder :: "nat \<Rightarrow> nat \<Rightarrow> ChatState \<Rightarrow> ChatState" where
  "createNewFolder now date st =
     (if trim (newFolderName st) = [] then st
      else
        let newFolder = \<lparr>id_f = toString now, name = newFolderName st,
                          timestamp_f = date, isExpanded = Some True\<rparr>
        in st\<lparr>store := (store st)\<lparr>folders := folders (store st) @ [newFolder]\<rparr>,
              newFolderName := []\<rparr>)"

definition createNewChat :: "nat \<Rightarrow> nat \<Rightarrow> jsstring option \<Rightarrow> ChatStore \<Rightarrow> ChatStore" where
  "createNewChat now date folderId' prev =
     (let newChat = \<lparr>id_c = toString now, title = utf16 ''New Chat'', messages = [],
                      timestamp_c = date, folderId = folderId'\<rparr>
      in prev\<lparr>chats := newChat # chats prev, currentChatId := Some (id_c newChat)\<rparr>)"

definition getCurrentChat :: "ChatStore \<Rightarrow> Chat option" where
  "getCurrentChat st =
     (if \<not> truthy (currentChatId st) then None
      else find (\<lambda>chat. Some (id_c chat) = currentChatId st) (chats st))"

text \<open>The updates written inline in the sidebar: selecting a chat, renaming a folder.\<close>

definition selectChat :: "jsstring \<Rightarrow> ChatStore \<Rightarrow> ChatStore" where
  "selectChat chatId prev = prev\<lparr>currentChatId := Some chatId\<rparr>"

definition renameFolder :: "jsstring \<Rightarrow> jsstring \<Rightarrow> ChatStore \<Rightarrow> ChatStore" where
  "renameFolder folderId' value prev =
     prev\<lparr>folders :=
       map (\<lambda>f. if id_f f = folderId' then f\<lparr>name := value\<rparr> else f) (folders prev)\<rparr>"

subsection \<open>Titles\<close>

text \<open>
  The title expression of \<open>updateChatTitle\<close>:
  \<open>firstMessage.slice(0, 30) + (firstMessage.length > 30 ? "..." : "")\<close>.
\<close>

definition deriveTitle :: "jsstring \<Rightarrow> jsstring" where
  "deriveTitle firstMessage =
     take 30 firstMessage @ (if length firstMessage > 30 then utf16 ''...'' else [])"

definition updateChatTitle :: "jsstring \<Rightarrow> jsstring \<Rightarrow> ChatStore \<Rightarrow> ChatStore" where
  "updateChatTitle chatId firstMessage prev =
     prev\<lparr>chats :=
       map (\<lambda>chat. if id_c chat = chatId
                    then chat\<lparr>title := deriveTitle firstMessage\<rparr>
                    else chat)
           (chats prev)\<rparr>"

subsection \<open>Drag and drop\<close>

text \<open>The state update of \<open>handleDrop\<close>, for the dragged chat and the drop target.\<close>

definition moveChat :: "jsstring \<Rightarrow> jsstring option \<Rightarrow> ChatStore \<Rightarrow> ChatStore" where
  "moveChat chatId targetFolderId prev =
     prev\<lparr>chats :=
       map (\<lambda>chat. if id_c chat = chatId
                    then chat\<lparr>folderId := targetFolderId\<rparr>
                    else chat)
           (chats prev)\<rparr>"

definition handleDragStart :: "jsstring \<Rightarrow> ChatState \<Rightarrow> ChatState" where
  "handleDragStart chatId st = st\<lparr>draggedChatId := Some chatId\<rparr>"

definition handleDrop :: "jsstring option \<Rightarrow> ChatState \<Rightarrow> ChatState" where
  "handleDrop targetFolderId st =
     (case draggedChatId st of
        None \<Rightarrow> st
      | Some d \<Rightarrow>
          if d = [] then st
          else st\<lparr>store := moveChat d targetFolderId (store st),
                  draggedChatId := None\<rparr>)"

subsection \<open>Sending a message\<close>

definition apology :: jsstring where
  "apology = utf16 ''Sorry, there was an error processing your request.''"

text \<open>
  The update of both branches of \<open>handleSubmit\<close>: the two messages go to every chat
  whose id is the \<open>store.currentChatId\<close> that the handler captured.
\<close>

definition appendExchange ::
  "jsstring option \<Rightarrow> jsstring \<Rightarrow> jsstring \<Rightarrow> ChatStore \<Rightarrow> ChatStore" where
  "appendExchange chatId userText assistantText prev =
     prev\<lparr>chats :=
       map (\<lambda>chat. if Some (id_c chat) = chatId
                    then chat\<lparr>messages := messages chat @
                           [\<lparr>role = User, content = userText, timestamp_m = None\<rparr>,
                            \<lparr>role = Assistant, content = assistantText, timestamp_m = None\<rparr>]\<rparr>
                    else chat)
           (chats prev)\<rparr>"

text \<open>
  \<open>handleSubmit\<close> up to its \<open>await\<close>: \<open>None\<close> when it returns at the guard,
  otherwise the state while the request is in flight.
\<close>

definition handleSubmit_begin :: "ChatState \<Rightarrow> ChatState option" where
  "handleSubmit_begin st =
     (if trim (input st) = [] \<or> getCurrentChat (store st) = None then None
      else Some (st\<lparr>isLoading := True\<rparr>))"

text \<open>
  \<open>handleSubmit\<close> after the \<open>await\<close>. \<open>cl\<close> is the state the handler
  captured when it was called (\<open>input\<close>, \<open>store.currentChatId\<close>, the current
  chat), \<open>st\<close> the state the updates are applied to. The body of the response is
  its \<open>response\<close> field. A rejected fetch, a response that is not \<open>ok\<close> and a
  body that is not JSON all end in the \<open>catch\<close>.
\<close>

definition handleSubmit_complete ::
  "ChatState \<Rightarrow> jsstring fetch_result \<Rightarrow> ChatState \<Rightarrow> ChatState" where
  "handleSubmit_complete cl res st =
     (let cid = currentChatId (store cl);
          isFirstMessage = (case getCurrentChat (store cl) of
                              None \<Rightarrow> False
                            | Some currentChat \<Rightarrow> messages currentChat = []);
          st1 = (case res of
                   Resolved True (Some response) \<Rightarrow>
                     (let s1 = appendExchange cid (input cl) response (store st)
                      in st\<lparr>store := (if isFirstMessage
                                         then (case cid of
                                                 Some c \<Rightarrow> updateChatTitle c (input cl) s1
                                               | None \<Rightarrow> s1)
                                         else s1)\<rparr>)
                 | _ \<Rightarrow> st\<lparr>store := appendExchange cid (input cl) apology (store st)\<rparr>)
      in st1\<lparr>isLoading := False, input := []\<rparr>)"

definition handleSubmit :: "jsstring fetch_result \<Rightarrow> ChatState \<Rightarrow> ChatState" where
  "handleSubmit res st =
     (case handleSubmit_begin st of
        None \<Rightarrow> st
      | Some st1 \<Rightarrow> handleSubmit_complete st res st1)"

subsection \<open>Deleting chats and folders, folding folders\<close>

text \<open>
  \<open>prev.chats[0]?.id || null\<close> reads the list before the filter; an empty id is
  falsy.
\<close>

definition firstChatId :: "ChatStore \<Rightarrow> jsstring option" where
  "firstChatId prev =
     (case chats prev of
        [] \<Rightarrow> None
      | c # _ \<Rightarrow> if id_c c = [] then None else Some (id_c c))"

definition deleteChat :: "jsstring \<Rightarrow> unit fetch_result \<Rightarrow> ChatStore \<Rightarrow> ChatStore" where
  "deleteChat chatId res prev =
     (case res of
        Rejected \<Rightarrow> prev
      | Resolved _ _ \<Rightarrow>
          prev\<lparr>chats := filter (\<lambda>chat. id_c chat \<noteq> chatId) (chats prev),
                currentChatId :=
                  (if Some chatId = currentChatId prev then firstChatId prev
                   else currentChatId prev)\<rparr>)"

definition deleteFolder :: "jsstring \<Rightarrow> unit fetch_result \<Rightarrow> ChatStore \<Rightarrow> ChatStore" where
  "deleteFolder folderId' res prev =
     (case res of
        Rejected \<Rightarrow> prev
      | Resolved _ _ \<Rightarrow>
          prev\<lparr>folders := filter (\<lambda>f. id_f f \<noteq> folderId') (folders prev),
                chats := map (\<lambda>chat. if folderId chat = Some folderId'
                                      then chat\<lparr>folderId := None\<rparr>
                                      else chat)
                             (chats prev)\<rparr>)"

text \<open>\<open>!f.isExpanded\<close> is true for \<open>false\<close> and for an absent field.\<close>

definition toggleFolder :: "jsstring \<Rightarrow> ChatStore \<Rightarrow> ChatStore" where
  "toggleFolder folderId' prev =
     prev\<lparr>folders :=
       map (\<lambda>f. if id_f f = folderId'
                 then f\<lparr>isExpanded := Some (isExpanded f \<noteq> Some True)\<rparr>
                 else f)
           (folders prev)\<rparr>"

section \<open>The upload panel (DocumentUpload.tsx)\<close>

record UploadError =
  filename :: jsstring
  error :: jsstring

record Progress =
  current :: nat
  total_p :: nat

text \<open>The requests that the panel sends to the service, by folder and file name.\<close>

datatype request =
    UploadDocument jsstring jsstring
  | ListDocuments jsstring
  | DeleteDocument jsstring jsstring

text \<open>
  The state variables of the panel, the value of the file input
  (\<open>e.target.value\<close>), and the requests sent so far, oldest first.
\<close>

record UploadState =
  uploading :: bool
  documents :: "jsstring list"
  deletingFile :: "jsstring option"
  uploadErrors :: "UploadError list"
  progress :: "Progress option"
  fileInputValue :: jsstring
  requests :: "request list"

text \<open>
  \<open>loadDocuments\<close>: the body of the response is its \<open>documents\<close> field. Every
  failure is caught and logged.
\<close>

definition loadDocuments ::
  "jsstring option \<Rightarrow> (jsstring list) fetch_result \<Rightarrow> UploadState \<Rightarrow> UploadState" where
  "loadDocuments folderId' res st =
     (case folderId' of
        None \<Rightarrow> st
      | Some f \<Rightarrow>
          if f = [] then st
          else
            let st1 = st\<lparr>requests := requests st @ [ListDocuments f]\<rparr>
            in (case res of
                  Resolved True (Some docs) \<Rightarrow> st1\<lparr>documents := docs\<rparr>
                | _ \<Rightarrow> st1))"

definition uploadFailed :: jsstring where
  "uploadFailed = utf16 ''Upload failed''"

text \<open>
  One round of the loop of \<open>handleFileUpload\<close>, for a file (its name) and the
  result of its upload request. The body of a response that is not \<open>ok\<close> is a
  JSON object, given by its \<open>detail\<close> field (\<open>None\<close> when the field is
  absent); a body that is not JSON throws into the inner \<open>catch\<close>, as a rejected
  fetch does. \<open>errorData.detail || "Upload failed"\<close> takes the fixed text for an
  absent or empty detail.
\<close>

definition uploadFile ::
  "jsstring \<Rightarrow> jsstring \<times> (jsstring option) fetch_result \<Rightarrow> UploadState \<Rightarrow> UploadState" where
  "uploadFile f fr st =
     (let file = fst fr;
          st1 = st\<lparr>requests := requests st @ [UploadDocument f file]\<rparr>
      in case snd fr of
           Rejected \<Rightarrow>
             st1\<lparr>uploadErrors :=
                   uploadErrors st1 @ [\<lparr>filename = file, error = uploadFailed\<rparr>]\<rparr>
         | Resolved False None \<Rightarrow>
             st1\<lparr>uploadErrors :=
                   uploadErrors st1 @ [\<lparr>filename = file, error = uploadFailed\<rparr>]\<rparr>
         | Resolved False (Some detail) \<Rightarrow>
             st1\<lparr>uploadErrors :=
                   uploadErrors st1 @
                     [\<lparr>filename = file,
                       error = (case detail of
                                  None \<Rightarrow> uploadFailed
                                | Some d \<Rightarrow> if d = [] then uploadFailed else d)\<rparr>]\<rparr>
         | Resolved True _ \<Rightarrow>
             st1\<lparr>progress :=
                   (case progress st1 of
                      None \<Rightarrow> None
                    | Some prev \<Rightarrow> Some (prev\<lparr>current := current prev + 1\<rparr>))\<rparr>)"

text \<open>The \<open>for\<close> loop over the files, in order.\<close>

fun uploadLoop ::
  "jsstring \<Rightarrow> (jsstring \<times> (jsstring option) fetch_result) list \<Rightarrow> UploadState
     \<Rightarrow> UploadState" where
  "uploadLoop f [] st = st"
| "uploadLoop f (fr # frs) st = uploadLoop f frs (uploadFile f fr st)"

text \<open>The state when the loop is over, before the list of documents is read again.\<close>

definition uploadBatch ::
  "jsstring \<Rightarrow> (jsstring \<times> (jsstring option) fetch_result) list \<Rightarrow> UploadState
     \<Rightarrow> UploadState" where
  "uploadBatch f files st =
     uploadLoop f files
       (st\<lparr>uploading := True, uploadErrors := [],
           progress := Some \<lparr>current = 0, total_p = length files\<rparr>\<rparr>)"

text \<open>
  \<open>handleFileUpload\<close>: \<open>files\<close> are the selected files, each with the result of
  its upload request, and \<open>listRes\<close> is the result of the request of
  \<open>loadDocuments\<close>. Nothing throws out of the loop or out of
  \<open>loadDocuments\<close>; the \<open>finally\<close> block is the last update.
\<close>

definition handleFileUpload ::
  "jsstring option \<Rightarrow> (jsstring \<times> (jsstring option) fetch_result) list
     \<Rightarrow> (jsstring list) fetch_result \<Rightarrow> UploadState \<Rightarrow> UploadState" where
  "handleFileUpload folderId' files listRes st =
     (case folderId' of
        None \<Rightarrow> st
      | Some f \<Rightarrow>
          if files = [] \<or> f = [] then st
          else
            (loadDocuments folderId' listRes (uploadBatch f files st))
              \<lparr>uploading := False, progress := None, fileInputValue := []\<rparr>)"

section \<open>The invariant and sample snapshots\<close>

text \<open>Chat ids are unique across the store.\<close>

definition chatIdsUnique :: "ChatStore \<Rightarrow> bool" where
  "chatIdsUnique s = distinct (map id_c (chats s))"

text \<open>
  A snapshot with two chats, the first one selected and filed in the only folder,
  and a snapshot with that chat alone.
\<close>

definition chatA :: Chat where
  "chatA = \<lparr>id_c = utf16 ''1'', title = utf16 ''New Chat'', messages = [],
            timestamp_c = 1, folderId = Some (utf16 ''7'')\<rparr>"

definition chatB :: Chat where
  "chatB = \<lparr>id_c = utf16 ''2'', title = utf16 ''Hello'',
            messages = [\<lparr>role = User, content = utf16 ''Hello'', timestamp_m = None\<rparr>,
                        \<lparr>role = Assistant, content = utf16 ''Hi'', timestamp_m = None\<rparr>],
            timestamp_c = 2, folderId = None\<rparr>"

definition folderF :: Folder where
  "folderF = \<lparr>id_f = utf16 ''7'', name = utf16 ''Docs'', timestamp_f = 7,
              isExpanded = Some True\<rparr>"

definition store2 :: ChatStore where
  "store2 = \<lparr>chats = [chatA, chatB], folders = [folderF],
             currentChatId = Some (utf16 ''1''), currentFolderId = None\<rparr>"

definition store1 :: ChatStore where
  "store1 = \<lparr>chats = [chatA], folders = [folderF],
             currentChatId = Some (utf16 ''1''), currentFolderId = None\<rparr>"

text \<open>A snapshot, as one read from storage, whose folder has no \<open>isExpanded\<close> field.\<close>

definition folderG :: Folder where
  "folderG = \<lparr>id_f = utf16 ''8'', name = utf16 ''Old'', timestamp_f = 8, isExpanded = None\<rparr>"

definition store3 :: ChatStore where
  "store3 = \<lparr>chats = [], folders = [folderG], currentChatId = None, currentFolderId = None\<rparr>"

text \<open>A state of the component over the first snapshot, with text in the input field.\<close>

definition state2 :: ChatState where
  "state2 = \<lparr>isDarkMode = False, input = utf16 '' What is 2+2? '', isLoading = False,
             store = store2, newFolderName = [], editingFolderId = None,
             draggedChatId = None\<rparr>"

text \<open>The two messages of an exchange.\<close>

definition exchange :: "jsstring \<Rightarrow> jsstring \<Rightarrow> Message list" where
  "exchange userText assistantText =
     [\<lparr>role = User, content = userText, timestamp_m = None\<rparr>,
      \<lparr>role = Assistant, content = assistantText, timestamp_m = None\<rparr>]"

text \<open>
  The panel before an upload, and a batch of three files whose second upload is
  answered with an error status.
\<close>

definition upload0 :: UploadState where
  "upload0 = \<lparr>uploading = False, documents = [], deletingFile = None, uploadErrors = [],
              progress = None, fileInputValue = utf16 ''a.pdf'', requests = []\<rparr>"

definition batch3 :: "(jsstring \<times> (jsstring option) fetch_result) list" where
  "batch3 = [(utf16 ''a.pdf'', Resolved True None),
             (utf16 ''b.pdf'', Resolved False (Some (Some (utf16 ''Unsupported file type'')))),
             (utf16 ''c.pdf'', Resolved True None)]"

section \<open>Evaluating literals\<close>

lemma utf16_simps [simp]:
  "utf16 [] = []"
  "utf16 (c # cs) = of_nat (of_char c) # utf16 cs"
  by (simp_all add: utf16_def)

section \<open>Title derivation\<close>

lemma length_ellipsis: "length (utf16 ''...'') = 3"
  by (simp add: utf16_def)

lemma chats_updateChatTitle:
  "chats (updateChatTitle cid t s) =
     map (\<lambda>chat. if id_c chat = cid then chat\<lparr>title := deriveTitle t\<rparr> else chat) (chats s)"
  by (simp add: updateChatTitle_def)

lemma deriveTitle_length: "length (deriveTitle t) \<le> 33"
  by (simp add: deriveTitle_def length_ellipsis)

lemma deriveTitle_short: "length t \<le> 30 \<Longrightarrow> deriveTitle t = t"
  by (simp add: deriveTitle_def)

lemma deriveTitle_long:
  "length t > 30 \<Longrightarrow> deriveTitle t = take 30 t @ utf16 ''...'' \<and> length (deriveTitle t) = 33"
  by (simp add: deriveTitle_def length_ellipsis)

lemma updateChatTitle_sets_title:
  assumes "c \<in> set (chats (updateChatTitle cid t s))" and "id_c c = cid"
  shows "title c = deriveTitle t"
proof -
  from assms(1) obtain c0
    where c0: "c = (if id_c c0 = cid then c0\<lparr>title := deriveTitle t\<rparr> else c0)"
    unfolding chats_updateChatTitle set_map by blast
  show ?thesis
  proof (cases "id_c c0 = cid")
    case True
    with c0 show ?thesis by simp
  next
    case False
    with c0 assms(2) show ?thesis by simp
  qed
qed

text \<open>
  Claim C7. The derived title is a function of the text alone; it has at most 33 code
  units, it is the text itself when the text has at most 30, and otherwise it is the
  first 30 code units of the text followed by the three-dot marker. This is the title
  that \<open>updateChatTitle\<close> stores in the addressed chat.
\<close>

theorem deriveTitle_spec:
  "length (deriveTitle t) \<le> 33
   \<and> (length t \<le> 30 \<longrightarrow> deriveTitle t = t)
   \<and> (length t > 30 \<longrightarrow> deriveTitle t = take 30 t @ utf16 ''...''
                          \<and> length (deriveTitle t) = 33)
   \<and> (\<forall>c \<in> set (chats (updateChatTitle cid t s)).
         id_c c = cid \<longrightarrow> title c = deriveTitle t)"
  using deriveTitle_length deriveTitle_short deriveTitle_long updateChatTitle_sets_title
  by blast

theorem deriveTitle_spec_witness:
  "length (utf16 ''Hello'') \<le> 30
   \<and> deriveTitle (utf16 ''Hello'') = utf16 ''Hello''
   \<and> length (utf16 ''What is the derivative of x squared?'') > 30
   \<and> deriveTitle (utf16 ''What is the derivative of x squared?'')
       = utf16 ''What is the derivative of x sq...''
   \<and> chatA\<lparr>title := deriveTitle (utf16 ''Hello'')\<rparr>
        \<in> set (chats (updateChatTitle (utf16 ''1'') (utf16 ''Hello'') store2))
   \<and> title (chatA\<lparr>title := deriveTitle (utf16 ''Hello'')\<rparr>) = utf16 ''Hello''"
proof -
  have s: "length (utf16 ''Hello'') \<le> 30"
    and l: "length (utf16 ''What is the derivative of x squared?'') > 30"
    and t: "take 30 (utf16 ''What is the derivative of x squared?'') @ utf16 ''...''
             = utf16 ''What is the derivative of x sq...''"
    by simp_all
  have m: "chatA\<lparr>title := deriveTitle (utf16 ''Hello'')\<rparr>
            \<in> set (chats (updateChatTitle (utf16 ''1'') (utf16 ''Hello'') store2))"
    and i: "id_c (chatA\<lparr>title := deriveTitle (utf16 ''Hello'')\<rparr>) = utf16 ''1''"
    by (simp_all add: updateChatTitle_def store2_def chatA_def chatB_def)
  from deriveTitle_spec [of "utf16 ''Hello''" "utf16 ''1''" store2] s m i
  have a: "deriveTitle (utf16 ''Hello'') = utf16 ''Hello''"
    and c: "title (chatA\<lparr>title := deriveTitle (utf16 ''Hello'')\<rparr>) = deriveTitle (utf16 ''Hello'')"
    by blast+
  from deriveTitle_spec [of "utf16 ''What is the derivative of x squared?''"] l
  have b: "deriveTitle (utf16 ''What is the derivative of x squared?'')
            = take 30 (utf16 ''What is the derivative of x squared?'') @ utf16 ''...''"
    by blast
  from a b c s l t m show ?thesis by simp
qed

section \<open>Moving a chat\<close>

text \<open>
  Claim C8. For every snapshot, chat id and target folder id (null included), the
  state update of a move applied twice gives the snapshot that one application gives.
\<close>

theorem moveChat_idempotent:
  "moveChat c t (moveChat c t s) = moveChat c t s"
  by (simp add: moveChat_def comp_def cong: map_cong)

section \<open>Deleting the selected chat\<close>

lemma deleteChat_selected_first:
  "currentChatId
     (deleteChat (id_c c) (Resolved ok b)
        \<lparr>chats = c # cs, folders = fs, currentChatId = Some (id_c c), currentFolderId = cf\<rparr>)
   = (if id_c c = [] then None else Some (id_c c))"
  by (simp add: deleteChat_def firstChatId_def)

text \<open>
  Claim C1. Deleting the selected chat should select the first remaining chat, or null
  when none remains. The update reads the first chat of the list before the removal:
  when the selected chat is the first of the list, the selection stays on the id of the
  deleted chat. In the snapshot with chats 1 and 2, chat 1 selected, deleting chat 1
  leaves chat 2 alone and the selection on 1; in the snapshot with chat 1 alone, it
  leaves no chat and the selection on 1.
\<close>

theorem deleteChat_current_first:
  "chats (deleteChat (utf16 ''1'') (Resolved True None) store2) = [chatB]
   \<and> currentChatId (deleteChat (utf16 ''1'') (Resolved True None) store2) = Some (utf16 ''1'')
   \<and> chats (deleteChat (utf16 ''1'') (Resolved True None) store1) = []
   \<and> currentChatId (deleteChat (utf16 ''1'') (Resolved True None) store1) = Some (utf16 ''1'')"
  by (simp add: deleteChat_def firstChatId_def store1_def store2_def chatA_def chatB_def)

section \<open>Failed deletions\<close>

text \<open>
  Claim C2. A failed delete request should leave the snapshot unchanged. A rejected
  request (transport failure) does, for chats and for folders, and no failure leaves
  the handlers. A response that is not \<open>ok\<close> is not looked at: the chat, or the
  folder, is removed as after a success.
\<close>

theorem delete_not_ok:
  "deleteChat c Rejected s = s
   \<and> deleteFolder f Rejected s = s
   \<and> deleteChat c (Resolved False b) s = deleteChat c (Resolved True b) s
   \<and> deleteFolder f (Resolved False b) s = deleteFolder f (Resolved True b) s
   \<and> chats (deleteChat (utf16 ''2'') (Resolved False None) store2) = [chatA]
   \<and> deleteChat (utf16 ''2'') (Resolved False None) store2 \<noteq> store2
   \<and> folders (deleteFolder (utf16 ''7'') (Resolved False None) store2) = []
   \<and> deleteFolder (utf16 ''7'') (Resolved False None) store2 \<noteq> store2"
  by (simp add: deleteChat_def deleteFolder_def store2_def chatA_def chatB_def folderF_def)

section \<open>Deleting a folder\<close>

lemma deleteFolder_Resolved:
  "deleteFolder F (Resolved ok b) s =
     s\<lparr>folders := filter (\<lambda>f. id_f f \<noteq> F) (folders s),
        chats := map (\<lambda>chat. if folderId chat = Some F then chat\<lparr>folderId := None\<rparr> else chat)
                     (chats s)\<rparr>"
  by (simp add: deleteFolder_def)

lemma deleteFolder_folders:
  "folders (deleteFolder F (Resolved ok b) s) = filter (\<lambda>f. id_f f \<noteq> F) (folders s)"
  by (simp add: deleteFolder_Resolved)

lemma deleteFolder_absent: "F \<notin> id_f ` set (folders (deleteFolder F (Resolved ok b) s))"
  unfolding deleteFolder_folders by auto

lemma deleteFolder_chats_length:
  "length (chats (deleteFolder F (Resolved ok b) s)) = length (chats s)"
  by (simp add: deleteFolder_Resolved)

lemma deleteFolder_chat_nth:
  "i < length (chats s) \<Longrightarrow>
     chats (deleteFolder F (Resolved ok b) s) ! i =
       (if folderId (chats s ! i) = Some F then (chats s ! i)\<lparr>folderId := None\<rparr>
        else chats s ! i)"
  by (simp add: deleteFolder_Resolved)

lemma deleteFolder_selection:
  "currentChatId (deleteFolder F (Resolved ok b) s) = currentChatId s"
  "currentFolderId (deleteFolder F (Resolved ok b) s) = currentFolderId s"
  by (simp_all add: deleteFolder_Resolved)

text \<open>
  Claim C5. After a successful \<open>deleteFolder F\<close>: no folder with id \<open>F\<close> is
  left and the other folders are kept as they were, in order; every chat that was in
  \<open>F\<close> is the same chat with \<open>folderId\<close> null; every other chat is unchanged;
  the messages of every chat are unchanged; both selection ids are unchanged.
\<close>

theorem deleteFolder_spec:
  "F \<notin> id_f ` set (folders (deleteFolder F (Resolved True b) s))
   \<and> folders (deleteFolder F (Resolved True b) s) = filter (\<lambda>f. id_f f \<noteq> F) (folders s)
   \<and> length (chats (deleteFolder F (Resolved True b) s)) = length (chats s)
   \<and> (\<forall>i < length (chats s).
        (folderId (chats s ! i) = Some F \<longrightarrow>
           chats (deleteFolder F (Resolved True b) s) ! i = (chats s ! i)\<lparr>folderId := None\<rparr>
           \<and> folderId (chats (deleteFolder F (Resolved True b) s) ! i) = None)
        \<and> (folderId (chats s ! i) \<noteq> Some F \<longrightarrow>
              chats (deleteFolder F (Resolved True b) s) ! i = chats s ! i)
        \<and> messages (chats (deleteFolder F (Resolved True b) s) ! i) = messages (chats s ! i))
   \<and> currentChatId (deleteFolder F (Resolved True b) s) = currentChatId s
   \<and> currentFolderId (deleteFolder F (Resolved True b) s) = currentFolderId s"
proof (intro conjI allI impI)
  show "F \<notin> id_f ` set (folders (deleteFolder F (Resolved True b) s))"
    by (rule deleteFolder_absent)
  show "folders (deleteFolder F (Resolved True b) s) = filter (\<lambda>f. id_f f \<noteq> F) (folders s)"
    by (rule deleteFolder_folders)
  show "length (chats (deleteFolder F (Resolved True b) s)) = length (chats s)"
    by (rule deleteFolder_chats_length)
  show "currentChatId (deleteFolder F (Resolved True b) s) = currentChatId s"
    and "currentFolderId (deleteFolder F (Resolved True b) s) = currentFolderId s"
    by (rule deleteFolder_selection)+
next
  fix i assume i: "i < length (chats s)"
  show "messages (chats (deleteFolder F (Resolved True b) s) ! i) = messages (chats s ! i)"
    by (simp add: deleteFolder_chat_nth [OF i])
  {
    assume "folderId (chats s ! i) = Some F"
    then show "chats (deleteFolder F (Resolved True b) s) ! i = (chats s ! i)\<lparr>folderId := None\<rparr>"
      and "folderId (chats (deleteFolder F (Resolved True b) s) ! i) = None"
      by (simp_all add: deleteFolder_chat_nth [OF i])
  }
  {
    assume "folderId (chats s ! i) \<noteq> Some F"
    then show "chats (deleteFolder F (Resolved True b) s) ! i = chats s ! i"
      by (simp add: deleteFolder_chat_nth [OF i])
  }
qed

theorem deleteFolder_spec_witness:
  "folders (deleteFolder (utf16 ''7'') (Resolved True None) store2) = []
   \<and> (0::nat) < length (chats store2)
   \<and> folderId (chats store2 ! 0) = Some (utf16 ''7'')
   \<and> chats (deleteFolder (utf16 ''7'') (Resolved True None) store2) ! 0 = chatA\<lparr>folderId := None\<rparr>
   \<and> (1::nat) < length (chats store2)
   \<and> folderId (chats store2 ! 1) \<noteq> Some (utf16 ''7'')
   \<and> chats (deleteFolder (utf16 ''7'') (Resolved True None) store2) ! 1 = chatB"
proof -
  have h0: "(0::nat) < length (chats store2)" and h1: "(1::nat) < length (chats store2)"
    by (simp_all add: store2_def)
  have f0: "folderId (chats store2 ! 0) = Some (utf16 ''7'')"
    and f1: "folderId (chats store2 ! 1) \<noteq> Some (utf16 ''7'')"
    and c0: "chats store2 ! 0 = chatA" and c1: "chats store2 ! 1 = chatB"
    and ff: "filter (\<lambda>f. id_f f \<noteq> utf16 ''7'') (folders store2) = []"
    by (simp_all add: store2_def chatA_def chatB_def folderF_def)
  note spec = deleteFolder_spec [of "utf16 ''7''" None store2]
  from spec h0 f0 c0 have a: "chats (deleteFolder (utf16 ''7'') (Resolved True None) store2) ! 0 = chatA\<lparr>folderId := None\<rparr>"
    by metis
  from spec h1 f1 c1 have b: "chats (deleteFolder (utf16 ''7'') (Resolved True None) store2) ! 1 = chatB"
    by metis
  from spec ff have c: "folders (deleteFolder (utf16 ''7'') (Resolved True None) store2) = []"
    by metis
  from a b c h0 h1 f0 f1 show ?thesis by blast
qed

section \<open>Folding a folder\<close>

lemma folders_toggleFolder:
  "folders (toggleFolder f s) =
     map (\<lambda>g. if id_f g = f then g\<lparr>isExpanded := Some (isExpanded g \<noteq> Some True)\<rparr> else g)
         (folders s)"
  by (simp add: toggleFolder_def)

lemma toggleFolder_frame:
  "chats (toggleFolder f s) = chats s"
  "currentChatId (toggleFolder f s) = currentChatId s"
  "currentFolderId (toggleFolder f s) = currentFolderId s"
  by (simp_all add: toggleFolder_def)

lemma toggle_twice_folder:
  "isExpanded g \<noteq> None \<Longrightarrow> g\<lparr>isExpanded := Some (isExpanded g = Some True)\<rparr> = g"
  by (cases g) auto

lemma toggleFolder_twice:
  assumes "\<forall>g \<in> set (folders s). id_f g = f \<longrightarrow> isExpanded g \<noteq> None"
  shows "toggleFolder f (toggleFolder f s) = s"
proof -
  have "folders (toggleFolder f (toggleFolder f s)) = map (\<lambda>g. g) (folders s)"
    unfolding folders_toggleFolder map_map
  proof (rule map_cong [OF refl])
    fix g assume "g \<in> set (folders s)"
    with assms have "id_f g = f \<Longrightarrow> isExpanded g \<noteq> None" by blast
    then show "((\<lambda>g. if id_f g = f then g\<lparr>isExpanded := Some (isExpanded g \<noteq> Some True)\<rparr> else g) \<circ>
           (\<lambda>g. if id_f g = f then g\<lparr>isExpanded := Some (isExpanded g \<noteq> Some True)\<rparr> else g)) g = g"
      by (cases "id_f g = f") (simp_all add: toggle_twice_folder)
  qed
  then have "folders (toggleFolder f (toggleFolder f s)) = folders s" by simp
  then show ?thesis
    by (simp add: toggleFolder_def)
qed

lemma toggleFolder_nth:
  "i < length (folders s) \<Longrightarrow>
     folders (toggleFolder f s) ! i =
       (if id_f (folders s ! i) = f
        then (folders s ! i)\<lparr>isExpanded := Some (isExpanded (folders s ! i) \<noteq> Some True)\<rparr>
        else folders s ! i)"
  by (simp add: folders_toggleFolder)

text \<open>
  Claim C10, amended. In a snapshot where every folder with id \<open>f\<close> has its
  \<open>isExpanded\<close> field, toggling \<open>f\<close> twice gives the snapshot back. In every
  snapshot, one toggle keeps the number and order of the folders, leaves every folder
  with another id as it was, changes nothing but \<open>isExpanded\<close> in the others, and
  leaves the chats and both selection ids as they were.
\<close>

theorem toggleFolder_spec:
  "((\<forall>g \<in> set (folders s). id_f g = f \<longrightarrow> isExpanded g \<noteq> None) \<longrightarrow>
      toggleFolder f (toggleFolder f s) = s)
   \<and> length (folders (toggleFolder f s)) = length (folders s)
   \<and> (\<forall>i < length (folders s).
        (id_f (folders s ! i) \<noteq> f \<longrightarrow> folders (toggleFolder f s) ! i = folders s ! i)
        \<and> (folders (toggleFolder f s) ! i)\<lparr>isExpanded := isExpanded (folders s ! i)\<rparr>
            = folders s ! i)
   \<and> chats (toggleFolder f s) = chats s
   \<and> currentChatId (toggleFolder f s) = currentChatId s
   \<and> currentFolderId (toggleFolder f s) = currentFolderId s"
proof (intro conjI allI impI)
  assume "\<forall>g \<in> set (folders s). id_f g = f \<longrightarrow> isExpanded g \<noteq> None"
  then show "toggleFolder f (toggleFolder f s) = s" by (rule toggleFolder_twice)
next
  show "length (folders (toggleFolder f s)) = length (folders s)"
    by (simp add: folders_toggleFolder)
  show "chats (toggleFolder f s) = chats s"
    and "currentChatId (toggleFolder f s) = currentChatId s"
    and "currentFolderId (toggleFolder f s) = currentFolderId s"
    by (rule toggleFolder_frame)+
next
  fix i assume i: "i < length (folders s)"
  show "(folders (toggleFolder f s) ! i)\<lparr>isExpanded := isExpanded (folders s ! i)\<rparr> = folders s ! i"
    by (simp add: toggleFolder_nth [OF i])
  assume "id_f (folders s ! i) \<noteq> f"
  then show "folders (toggleFolder f s) ! i = folders s ! i"
    by (simp add: toggleFolder_nth [OF i])
qed

text \<open>
  The claim as stated fails where the optional field is absent: the first toggle sets
  it to true, the second to false, and false is not the absent field.
\<close>

theorem toggleFolder_absent_field:
  "toggleFolder (utf16 ''8'') (toggleFolder (utf16 ''8'') store3) \<noteq> store3"
  by (simp add: toggleFolder_def store3_def folderG_def)

theorem toggleFolder_spec_witness:
  "isExpanded folderF \<noteq> None
   \<and> toggleFolder (utf16 ''7'') (toggleFolder (utf16 ''7'') store2) = store2
   \<and> isExpanded (folders (toggleFolder (utf16 ''7'') store2) ! 0) = Some False
   \<and> (0::nat) < length (folders store3)
   \<and> id_f (folders store3 ! 0) \<noteq> utf16 ''7''
   \<and> folders (toggleFolder (utf16 ''7'') store3) ! 0 = folderG"
proof -
  have h: "\<forall>g \<in> set (folders store2). id_f g = utf16 ''7'' \<longrightarrow> isExpanded g \<noteq> None"
    and e: "isExpanded folderF \<noteq> None"
    by (simp_all add: store2_def folderF_def)
  have i: "(0::nat) < length (folders store3)"
    and n: "id_f (folders store3 ! 0) \<noteq> utf16 ''7''"
    and g: "folders store3 ! 0 = folderG"
    by (simp_all add: store3_def folderG_def)
  have t: "isExpanded (folders (toggleFolder (utf16 ''7'') store2) ! 0) = Some False"
    by (simp add: toggleFolder_def store2_def folderF_def)
  from toggleFolder_spec [of store2 "utf16 ''7''"] h
  have a: "toggleFolder (utf16 ''7'') (toggleFolder (utf16 ''7'') store2) = store2"
    by blast
  from toggleFolder_spec [of store3 "utf16 ''7''"] i n g
  have b: "folders (toggleFolder (utf16 ''7'') store3) ! 0 = folderG"
    by metis
  from a b e i n t show ?thesis by blast
qed

section \<open>Startup\<close>

lemma startup_absent:
  "initialStore JSON_parse None = emptyStore"
  "initialStore JSON_parse (Some []) = emptyStore"
  "startup JSON_parse dark None
     = Inr ((initialState JSON_parse None)\<lparr>isDarkMode := (dark = Some (utf16 ''true''))\<rparr>)"
  "store (initialState JSON_parse None) = emptyStore"
  by (simp_all add: initialStore_def initialState_def startup_def mountEffect_def)

text \<open>
  Claim C3. Hydration should give the empty store, and not fail, when the slot is absent
  or does not parse. The initializer does: its parse is inside a \<open>try\<close>. The mount
  effect parses the same slot again outside any \<open>try\<close>: for every slot that is not
  empty and does not parse, the initializer gives the empty store and the effect then
  throws the SyntaxError.
\<close>

theorem startup_malformed:
  "JSON_parse saved = None \<Longrightarrow> saved \<noteq> [] \<Longrightarrow>
     initialStore JSON_parse (Some saved) = emptyStore
     \<and> startup JSON_parse dark (Some saved) = Inl SyntaxError"
  by (simp add: initialStore_def startup_def mountEffect_def)

theorem startup_malformed_witness:
  "utf16 ''{'' \<noteq> []
   \<and> initialStore (\<lambda>s. None) (Some (utf16 ''{'')) = emptyStore
   \<and> startup (\<lambda>s. None) None (Some (utf16 ''{'')) = Inl SyntaxError"
proof -
  have n: "utf16 ''{'' \<noteq> []" by simp
  from startup_malformed [of "\<lambda>s. None" "utf16 ''{''" None, OF refl n] n
  show ?thesis by simp
qed

section \<open>Unique chat ids\<close>

lemma distinct_ids_filter:
  "distinct (map id_c xs) \<Longrightarrow> distinct (map id_c (filter P xs))"
  by (rule distinct_map_filter)

lemma ids_map_preserved:
  "(\<And>x. id_c (g x) = id_c x) \<Longrightarrow> map id_c (map g xs) = map id_c xs"
  by simp

lemma ids_createNewChat:
  "map id_c (chats (createNewChat now date fid s)) = toString now # map id_c (chats s)"
  by (simp add: createNewChat_def)

lemma ids_deleteChat:
  "map id_c (chats (deleteChat c res s)) =
     (case res of Rejected \<Rightarrow> map id_c (chats s)
      | Resolved ok b \<Rightarrow> map id_c (filter (\<lambda>chat. id_c chat \<noteq> c) (chats s)))"
  by (simp add: deleteChat_def split: fetch_result.split)

lemma ids_deleteFolder: "map id_c (chats (deleteFolder f res s)) = map id_c (chats s)"
  by (cases res) (simp_all add: deleteFolder_def comp_def)

lemma ids_moveChat: "map id_c (chats (moveChat c t s)) = map id_c (chats s)"
  by (simp add: moveChat_def comp_def)

lemma ids_appendExchange: "map id_c (chats (appendExchange cid u a s)) = map id_c (chats s)"
  by (simp add: appendExchange_def comp_def)

lemma ids_updateChatTitle: "map id_c (chats (updateChatTitle c u s)) = map id_c (chats s)"
  by (simp add: updateChatTitle_def comp_def)

lemma chats_folder_updates:
  "chats (renameFolder f v s) = chats s"
  "chats (toggleFolder f s) = chats s"
  "chats (selectChat c s) = chats s"
  "chats (store (createNewFolder now date st)) = chats (store st)"
  by (simp_all add: renameFolder_def toggleFolder_def selectChat_def createNewFolder_def Let_def)

lemma ids_handleDrop:
  "map id_c (chats (store (handleDrop t st))) = map id_c (chats (store st))"
  by (simp add: handleDrop_def ids_moveChat split: option.split)

lemma ids_handleSubmit_complete:
  "map id_c (chats (store (handleSubmit_complete cl res st))) = map id_c (chats (store st))"
proof (cases res)
  case Rejected
  then show ?thesis
    by (simp add: handleSubmit_complete_def Let_def ids_appendExchange)
next
  case (Resolved ok body)
  show ?thesis
  proof (cases "ok \<and> body \<noteq> None")
    case True
    then obtain r where r: "res = Resolved True (Some r)"
      using Resolved by auto
    show ?thesis
      unfolding r handleSubmit_complete_def Let_def
      by (simp add: ids_appendExchange ids_updateChatTitle split: option.split)
  next
    case False
    then have "res = Resolved False body \<or> res = Resolved True None"
      using Resolved by auto
    then show ?thesis
      by (auto simp: handleSubmit_complete_def Let_def ids_appendExchange)
  qed
qed

lemma ids_handleSubmit:
  "map id_c (chats (store (handleSubmit res st))) = map id_c (chats (store st))"
proof (cases "handleSubmit_begin st")
  case None
  then show ?thesis by (simp add: handleSubmit_def)
next
  case (Some st1)
  then have "store st1 = store st"
    by (auto simp: handleSubmit_begin_def split: if_splits)
  with Some show ?thesis
    by (simp add: handleSubmit_def ids_handleSubmit_complete)
qed

text \<open>
  Claim C9. Every operation on the store keeps the chat ids unique: creating a chat,
  when the generated id is not the id of a chat of the store; deleting a chat, whatever
  the result of the request; creating, deleting and renaming a folder; moving a chat
  (the update and the drop handler); folding a folder; appending an exchange and
  setting a title (the updates, and the submit handler for every result of the
  request and every state captured by the handler); selecting a chat.
\<close>

theorem chatIdsUnique_preserved:
  assumes "chatIdsUnique s"
  shows "(toString now \<notin> id_c ` set (chats s) \<longrightarrow> chatIdsUnique (createNewChat now date fid s))
   \<and> chatIdsUnique (deleteChat c dres s)
   \<and> chatIdsUnique (store (createNewFolder now date (st\<lparr>store := s\<rparr>)))
   \<and> chatIdsUnique (deleteFolder f dres s)
   \<and> chatIdsUnique (renameFolder f v s)
   \<and> chatIdsUnique (moveChat c t s)
   \<and> chatIdsUnique (store (handleDrop t (st\<lparr>store := s\<rparr>)))
   \<and> chatIdsUnique (toggleFolder f s)
   \<and> chatIdsUnique (appendExchange cid u a s)
   \<and> chatIdsUnique (updateChatTitle c u s)
   \<and> chatIdsUnique (store (handleSubmit_complete cl res (st\<lparr>store := s\<rparr>)))
   \<and> chatIdsUnique (store (handleSubmit res (st\<lparr>store := s\<rparr>)))
   \<and> chatIdsUnique (selectChat c s)"
proof -
  from assms have d: "distinct (map id_c (chats s))"
    by (simp add: chatIdsUnique_def)
  have new: "toString now \<notin> id_c ` set (chats s) \<longrightarrow> chatIdsUnique (createNewChat now date fid s)"
    unfolding chatIdsUnique_def ids_createNewChat using d by simp
  have del: "chatIdsUnique (deleteChat c dres s)"
    unfolding chatIdsUnique_def ids_deleteChat using d
    by (simp add: distinct_ids_filter split: fetch_result.split)
  have st: "store (st\<lparr>store := s\<rparr>) = s" by simp
  have others: "chatIdsUnique (deleteFolder f dres s)" "chatIdsUnique (moveChat c t s)"
    "chatIdsUnique (appendExchange cid u a s)" "chatIdsUnique (updateChatTitle c u s)"
    "chatIdsUnique (store (handleDrop t (st\<lparr>store := s\<rparr>)))"
    "chatIdsUnique (store (handleSubmit_complete cl res (st\<lparr>store := s\<rparr>)))"
    "chatIdsUnique (store (handleSubmit res (st\<lparr>store := s\<rparr>)))"
    unfolding chatIdsUnique_def ids_deleteFolder ids_moveChat ids_appendExchange
      ids_updateChatTitle ids_handleDrop ids_handleSubmit_complete ids_handleSubmit st
    using d by simp_all
  have folder_ops: "chatIdsUnique (renameFolder f v s)" "chatIdsUnique (toggleFolder f s)"
    "chatIdsUnique (selectChat c s)"
    "chatIdsUnique (store (createNewFolder now date (st\<lparr>store := s\<rparr>)))"
    unfolding chatIdsUnique_def chats_folder_updates st using d by simp_all
  from new del others folder_ops show ?thesis by blast
qed

theorem chatIdsUnique_preserved_witness:
  "chatIdsUnique store2
   \<and> toString 3 \<notin> id_c ` set (chats store2)
   \<and> chatIdsUnique (createNewChat 3 3 None store2)
   \<and> map id_c (chats (createNewChat 3 3 None store2)) = [utf16 ''3'', utf16 ''1'', utf16 ''2'']
   \<and> chatIdsUnique (deleteChat (utf16 ''1'') (Resolved True None) store2)"
proof -
  have u: "chatIdsUnique store2"
    and n: "toString 3 \<notin> id_c ` set (chats store2)"
    and m: "map id_c (chats (createNewChat 3 3 None store2)) = [utf16 ''3'', utf16 ''1'', utf16 ''2'']"
    by (simp_all add: chatIdsUnique_def createNewChat_def store2_def chatA_def chatB_def
        toString.simps)
  from chatIdsUnique_preserved [OF u, of 3 3 None "utf16 ''1''" "Resolved True None"] n
  have "chatIdsUnique (createNewChat 3 3 None store2)"
    and "chatIdsUnique (deleteChat (utf16 ''1'') (Resolved True None) store2)"
    by blast+
  with u n m show ?thesis by blast
qed

section \<open>A failed send\<close>

lemma chats_appendExchange:
  "chats (appendExchange cid u a s) =
     map (\<lambda>chat. if Some (id_c chat) = cid
                  then chat\<lparr>messages := messages chat @ exchange u a\<rparr> else chat)
         (chats s)"
  by (simp add: appendExchange_def exchange_def)

lemma appendExchange_frame:
  "folders (appendExchange cid u a s) = folders s"
  "currentChatId (appendExchange cid u a s) = currentChatId s"
  "currentFolderId (appendExchange cid u a s) = currentFolderId s"
  by (simp_all add: appendExchange_def)

lemma find_map_same_id:
  assumes "\<And>x. id_c (g x) = id_c x"
  shows "find (\<lambda>c. Some (id_c c) = cid) (map g xs) = map_option g (find (\<lambda>c. Some (id_c c) = cid) xs)"
  by (induction xs) (simp_all add: assms)

lemma getCurrentChat_id:
  assumes "getCurrentChat s = Some cur"
  shows "currentChatId s = Some (id_c cur)"
proof -
  from assms have "find (\<lambda>chat. Some (id_c chat) = currentChatId s) (chats s) = Some cur"
    by (simp add: getCurrentChat_def split: if_splits)
  then obtain i where "Some (id_c (chats s ! i)) = currentChatId s" and "cur = chats s ! i"
    unfolding find_Some_iff by blast
  then show ?thesis by simp
qed

lemma getCurrentChat_appendExchange:
  assumes "getCurrentChat s = Some cur"
  shows "getCurrentChat (appendExchange (currentChatId s) u a s)
           = Some (cur\<lparr>messages := messages cur @ exchange u a\<rparr>)"
proof -
  let ?g = "\<lambda>chat. if Some (id_c chat) = currentChatId s
                     then chat\<lparr>messages := messages chat @ exchange u a\<rparr> else chat"
  have g: "\<And>x. id_c (?g x) = id_c x" by simp
  from assms have t: "truthy (currentChatId s)"
    and f: "find (\<lambda>chat. Some (id_c chat) = currentChatId s) (chats s) = Some cur"
    by (simp_all add: getCurrentChat_def split: if_splits)
  have "getCurrentChat (appendExchange (currentChatId s) u a s)
          = find (\<lambda>chat. Some (id_c chat) = currentChatId s) (map ?g (chats s))"
    using t by (simp add: getCurrentChat_def appendExchange_frame chats_appendExchange)
  also have "\<dots> = map_option ?g (find (\<lambda>chat. Some (id_c chat) = currentChatId s) (chats s))"
    by (rule find_map_same_id [OF g])
  also have "\<dots> = Some (?g cur)" by (simp add: f)
  also have "?g cur = cur\<lparr>messages := messages cur @ exchange u a\<rparr>"
    using getCurrentChat_id [OF assms] by simp
  finally show ?thesis .
qed

lemma handleSubmit_begin_Some:
  assumes "trim (input st) \<noteq> []" and "getCurrentChat (store st) = Some cur"
  shows "handleSubmit_begin st = Some (st\<lparr>isLoading := True\<rparr>)"
  using assms by (simp add: handleSubmit_begin_def)

lemma handleSubmit_complete_failed:
  assumes "res = Rejected \<or> res = Resolved False body \<or> res = Resolved True None"
  shows "handleSubmit_complete cl res st =
           st\<lparr>store := appendExchange (currentChatId (store cl)) (input cl) apology (store st),
              isLoading := False, input := []\<rparr>"
  using assms by (auto simp: handleSubmit_complete_def Let_def)

lemma handleSubmit_failed:
  assumes "trim (input st) \<noteq> []" and "getCurrentChat (store st) = Some cur"
    and "res = Rejected \<or> res = Resolved False body \<or> res = Resolved True None"
  shows "handleSubmit res st =
           st\<lparr>store := appendExchange (currentChatId (store st)) (input st) apology (store st),
              isLoading := False, input := []\<rparr>"
  unfolding handleSubmit_def handleSubmit_begin_Some [OF assms(1,2)]
  by (simp add: handleSubmit_complete_failed [OF assms(3)])

text \<open>
  Claim C4. With an input that is not empty after trimming and a selected chat, a send
  whose request is rejected or answered with a status that is not a success (or with a
  body that is not JSON): before the answer, the handler changes neither the store nor
  the input; afterwards the store is the old one after the single update that appends
  the exchange, so the selected chat has its old messages followed by the user message
  with the input as typed and the assistant message with the apology; the chats with
  another id are unchanged; the input is empty and the loading flag is off.
\<close>

theorem handleSubmit_failure:
  assumes "trim (input st) \<noteq> []" and "getCurrentChat (store st) = Some cur"
    and "res = Rejected \<or> res = Resolved False body \<or> res = Resolved True None"
  shows "(\<exists>st1. handleSubmit_begin st = Some st1 \<and> store st1 = store st \<and> input st1 = input st)
    \<and> store (handleSubmit res st)
        = appendExchange (currentChatId (store st)) (input st) apology (store st)
    \<and> getCurrentChat (store (handleSubmit res st))
        = Some (cur\<lparr>messages := messages cur @
                   [\<lparr>role = User, content = input st, timestamp_m = None\<rparr>,
                    \<lparr>role = Assistant, content = apology, timestamp_m = None\<rparr>]\<rparr>)
    \<and> length (chats (store (handleSubmit res st))) = length (chats (store st))
    \<and> (\<forall>i < length (chats (store st)).
          id_c (chats (store st) ! i) \<noteq> id_c cur \<longrightarrow>
            chats (store (handleSubmit res st)) ! i = chats (store st) ! i)
    \<and> input (handleSubmit res st) = []
    \<and> isLoading (handleSubmit res st) = False"
proof -
  note h = handleSubmit_failed [OF assms]
  note cid = getCurrentChat_id [OF assms(2)]
  have s: "store (handleSubmit res st)
             = appendExchange (currentChatId (store st)) (input st) apology (store st)"
    by (simp add: h)
  have b: "\<exists>st1. handleSubmit_begin st = Some st1 \<and> store st1 = store st \<and> input st1 = input st"
    by (simp add: handleSubmit_begin_Some [OF assms(1,2)])
  have c: "getCurrentChat (store (handleSubmit res st))
        = Some (cur\<lparr>messages := messages cur @
                   [\<lparr>role = User, content = input st, timestamp_m = None\<rparr>,
                    \<lparr>role = Assistant, content = apology, timestamp_m = None\<rparr>]\<rparr>)"
    unfolding s getCurrentChat_appendExchange [OF assms(2)] by (simp add: exchange_def)
  have l: "length (chats (store (handleSubmit res st))) = length (chats (store st))"
    unfolding s chats_appendExchange by simp
  have o: "\<forall>i < length (chats (store st)).
          id_c (chats (store st) ! i) \<noteq> id_c cur \<longrightarrow>
            chats (store (handleSubmit res st)) ! i = chats (store st) ! i"
    unfolding s chats_appendExchange cid by simp
  have e: "input (handleSubmit res st) = []" "isLoading (handleSubmit res st) = False"
    by (simp_all add: h)
  from b s c l o e show ?thesis by blast
qed

theorem handleSubmit_failure_witness:
  "trim (input state2) = utf16 ''What is 2+2?''
   \<and> getCurrentChat (store state2) = Some chatA
   \<and> getCurrentChat (store (handleSubmit Rejected state2))
       = Some (chatA\<lparr>messages :=
                 [\<lparr>role = User, content = utf16 '' What is 2+2? '', timestamp_m = None\<rparr>,
                  \<lparr>role = Assistant, content = apology, timestamp_m = None\<rparr>]\<rparr>)
   \<and> chats (store (handleSubmit Rejected state2)) ! 1 = chatB
   \<and> input (handleSubmit Rejected state2) = []"
proof -
  have t: "trim (input state2) = utf16 ''What is 2+2?''"
    by (simp add: state2_def trim_def isWhiteSpace_def)
  then have t': "trim (input state2) \<noteq> []" by simp
  have g: "getCurrentChat (store state2) = Some chatA"
    by (simp add: state2_def store2_def getCurrentChat_def truthy_def chatA_def chatB_def)
  have i: "input state2 = utf16 '' What is 2+2? ''" and m: "messages chatA = []"
    and n: "1 < length (chats (store state2))"
    and d: "id_c (chats (store state2) ! 1) \<noteq> id_c chatA"
    and b: "chats (store state2) ! 1 = chatB"
    by (simp_all add: state2_def store2_def chatA_def chatB_def)
  note spec = handleSubmit_failure [OF t' g, of Rejected None]
  from spec have "getCurrentChat (store (handleSubmit Rejected state2))
       = Some (chatA\<lparr>messages := messages chatA @
                 [\<lparr>role = User, content = input state2, timestamp_m = None\<rparr>,
                  \<lparr>role = Assistant, content = apology, timestamp_m = None\<rparr>]\<rparr>)"
    by blast
  then have a: "getCurrentChat (store (handleSubmit Rejected state2))
       = Some (chatA\<lparr>messages :=
                 [\<lparr>role = User, content = utf16 '' What is 2+2? '', timestamp_m = None\<rparr>,
                  \<lparr>role = Assistant, content = apology, timestamp_m = None\<rparr>]\<rparr>)"
    unfolding i m by simp
  from spec n d b have c: "chats (store (handleSubmit Rejected state2)) ! 1 = chatB"
    by metis
  from spec have e: "input (handleSubmit Rejected state2) = []" by blast
  from t g a c e show ?thesis by blast
qed

section \<open>A batch with one failed upload\<close>

lemma uploadFile_ok:
  "uploadFile f (n, Resolved True b) st =
     st\<lparr>requests := requests st @ [UploadDocument f n],
        progress := (case progress st of None \<Rightarrow> None
                     | Some prev \<Rightarrow> Some (prev\<lparr>current := current prev + 1\<rparr>))\<rparr>"
  by (simp add: uploadFile_def Let_def)

lemma uploadFile_failed:
  assumes "r = Rejected \<or> r = Resolved False body"
  shows "\<exists>e. uploadFile f (n, r) st =
           st\<lparr>requests := requests st @ [UploadDocument f n],
              uploadErrors := uploadErrors st @ [\<lparr>filename = n, error = e\<rparr>]\<rparr>"
proof (cases "r = Rejected")
  case True
  then have "uploadFile f (n, r) st =
           st\<lparr>requests := requests st @ [UploadDocument f n],
              uploadErrors := uploadErrors st @ [\<lparr>filename = n, error = uploadFailed\<rparr>]\<rparr>"
    by (simp add: uploadFile_def Let_def)
  then show ?thesis by (rule exI)
next
  case False
  with assms have r: "r = Resolved False body" by simp
  show ?thesis
  proof (cases body)
    case None
    with r have "uploadFile f (n, r) st =
           st\<lparr>requests := requests st @ [UploadDocument f n],
              uploadErrors := uploadErrors st @ [\<lparr>filename = n, error = uploadFailed\<rparr>]\<rparr>"
      by (simp add: uploadFile_def Let_def)
    then show ?thesis by (rule exI)
  next
    case (Some detail)
    with r have "uploadFile f (n, r) st =
           st\<lparr>requests := requests st @ [UploadDocument f n],
              uploadErrors := uploadErrors st @
                [\<lparr>filename = n,
                  error = (case detail of None \<Rightarrow> uploadFailed
                           | Some d \<Rightarrow> if d = [] then uploadFailed else d)\<rparr>]\<rparr>"
      by (simp add: uploadFile_def Let_def)
    then show ?thesis by (rule exI)
  qed
qed

lemma loadDocuments_fields:
  "uploadErrors (loadDocuments fid res st) = uploadErrors st"
  "progress (loadDocuments fid res st) = progress st"
  by (auto simp: loadDocuments_def Let_def split: option.split fetch_result.split bool.split)

lemma loadDocuments_requests:
  "f \<noteq> [] \<Longrightarrow> requests (loadDocuments (Some f) res st) = requests st @ [ListDocuments f]"
  by (auto simp: loadDocuments_def Let_def split: option.split fetch_result.split bool.split)

lemma handleFileUpload_run:
  "f \<noteq> [] \<Longrightarrow> files \<noteq> [] \<Longrightarrow>
     handleFileUpload (Some f) files listRes st =
       (loadDocuments (Some f) listRes (uploadBatch f files st))
         \<lparr>uploading := False, progress := None, fileInputValue := []\<rparr>"
  by (simp add: handleFileUpload_def)

lemma handleFileUpload_cleanup:
  assumes "f \<noteq> []" and "files \<noteq> []"
  shows "progress (handleFileUpload (Some f) files listRes st) = None
    \<and> uploading (handleFileUpload (Some f) files listRes st) = False
    \<and> fileInputValue (handleFileUpload (Some f) files listRes st) = []"
  by (simp add: handleFileUpload_run [OF assms])

lemma uploadBatch_3:
  assumes "r2 = Rejected \<or> r2 = Resolved False body"
  shows "\<exists>e. uploadBatch f [(n1, Resolved True b1), (n2, r2), (n3, Resolved True b3)] st =
     st\<lparr>uploading := True,
        uploadErrors := [\<lparr>filename = n2, error = e\<rparr>],
        progress := Some \<lparr>current = 2, total_p = 3\<rparr>,
        requests := requests st @ [UploadDocument f n1, UploadDocument f n2, UploadDocument f n3]\<rparr>"
proof -
  let ?s0 = "st\<lparr>uploading := True, uploadErrors := [],
                 progress := Some \<lparr>current = 0, total_p = 3\<rparr>\<rparr>"
  let ?s1 = "uploadFile f (n1, Resolved True b1) ?s0"
  from uploadFile_failed [OF assms, of f n2 ?s1] obtain e where
    e: "uploadFile f (n2, r2) ?s1 =
          ?s1\<lparr>requests := requests ?s1 @ [UploadDocument f n2],
              uploadErrors := uploadErrors ?s1 @ [\<lparr>filename = n2, error = e\<rparr>]\<rparr>"
    by blast
  have "uploadBatch f [(n1, Resolved True b1), (n2, r2), (n3, Resolved True b3)] st =
          uploadFile f (n3, Resolved True b3) (uploadFile f (n2, r2) ?s1)"
    by (simp add: uploadBatch_def numeral_3_eq_3)
  also have "\<dots> = st\<lparr>uploading := True,
        uploadErrors := [\<lparr>filename = n2, error = e\<rparr>],
        progress := Some \<lparr>current = 2, total_p = 3\<rparr>,
        requests := requests st @ [UploadDocument f n1, UploadDocument f n2, UploadDocument f n3]\<rparr>"
    unfolding e by (simp add: uploadFile_ok)
  finally show ?thesis by blast
qed

text \<open>
  Claim C6. A batch of three files for a folder id that passes the guard of the handler
  (not null and not empty, so that the uploads are attempted), where the second upload
  is rejected or answered with a status that is not a success and the two others
  succeed: when the loop is over the progress is 2 of 3; the requests sent are the
  three uploads, in order, followed by exactly one request for the list of documents;
  the error list is exactly one entry, with the name of the second file; and for every
  batch that is not empty, whatever the results, the handler ends with the progress
  cleared, the uploading flag off and the file input emptied.
\<close>

theorem handleFileUpload_partial_failure:
  assumes "f \<noteq> []" and "r2 = Rejected \<or> r2 = Resolved False body"
  shows "progress (uploadBatch f [(n1, Resolved True b1), (n2, r2), (n3, Resolved True b3)] st)
           = Some \<lparr>current = 2, total_p = 3\<rparr>
    \<and> requests (handleFileUpload (Some f)
                   [(n1, Resolved True b1), (n2, r2), (n3, Resolved True b3)] listRes st)
        = requests st @ [UploadDocument f n1, UploadDocument f n2, UploadDocument f n3,
                         ListDocuments f]
    \<and> (\<exists>e. uploadErrors (handleFileUpload (Some f)
                   [(n1, Resolved True b1), (n2, r2), (n3, Resolved True b3)] listRes st)
             = [\<lparr>filename = n2, error = e\<rparr>])
    \<and> (\<forall>files. files \<noteq> [] \<longrightarrow>
          progress (handleFileUpload (Some f) files listRes st) = None
          \<and> uploading (handleFileUpload (Some f) files listRes st) = False
          \<and> fileInputValue (handleFileUpload (Some f) files listRes st) = [])"
proof -
  let ?files = "[(n1, Resolved True b1), (n2, r2), (n3, Resolved True b3)]"
  from uploadBatch_3 [OF assms(2), of f n1 b1 n2 n3 b3 st] obtain e where
    e: "uploadBatch f ?files st =
     st\<lparr>uploading := True,
        uploadErrors := [\<lparr>filename = n2, error = e\<rparr>],
        progress := Some \<lparr>current = 2, total_p = 3\<rparr>,
        requests := requests st @ [UploadDocument f n1, UploadDocument f n2, UploadDocument f n3]\<rparr>"
    by blast
  have ne: "?files \<noteq> []" by simp
  have p: "progress (uploadBatch f ?files st) = Some \<lparr>current = 2, total_p = 3\<rparr>"
    by (simp add: e)
  have r: "requests (handleFileUpload (Some f) ?files listRes st)
        = requests st @ [UploadDocument f n1, UploadDocument f n2, UploadDocument f n3,
                         ListDocuments f]"
    unfolding handleFileUpload_run [OF assms(1) ne]
    by (simp add: loadDocuments_requests [OF assms(1)] e)
  have u: "uploadErrors (handleFileUpload (Some f) ?files listRes st) = [\<lparr>filename = n2, error = e\<rparr>]"
    unfolding handleFileUpload_run [OF assms(1) ne]
    by (simp add: loadDocuments_fields e)
  from p r u handleFileUpload_cleanup [OF assms(1)] show ?thesis by blast
qed

text \<open>The guard \<open>!folderId\<close> also stops on an empty id: nothing is sent or changed.\<close>

lemma handleFileUpload_empty_folder_id:
  "handleFileUpload (Some []) batch3 (Resolved True (Some [])) upload0 = upload0
   \<and> requests (handleFileUpload (Some []) batch3 (Resolved True (Some [])) upload0) = []
   \<and> uploadErrors (handleFileUpload (Some []) batch3 (Resolved True (Some [])) upload0) = []
   \<and> fileInputValue (handleFileUpload (Some []) batch3 (Resolved True (Some [])) upload0)
       = utf16 ''a.pdf''"
  by (simp add: handleFileUpload_def upload0_def)

theorem handleFileUpload_partial_failure_witness:
  "utf16 ''7'' \<noteq> []
   \<and> progress (uploadBatch (utf16 ''7'') batch3 upload0) = Some \<lparr>current = 2, total_p = 3\<rparr>
   \<and> requests (handleFileUpload (Some (utf16 ''7'')) batch3 (Resolved True (Some [])) upload0)
       = [UploadDocument (utf16 ''7'') (utf16 ''a.pdf''),
          UploadDocument (utf16 ''7'') (utf16 ''b.pdf''),
          UploadDocument (utf16 ''7'') (utf16 ''c.pdf''),
          ListDocuments (utf16 ''7'')]
   \<and> map filename (uploadErrors (handleFileUpload (Some (utf16 ''7'')) batch3
                                   (Resolved True (Some [])) upload0)) = [utf16 ''b.pdf'']
   \<and> progress (handleFileUpload (Some (utf16 ''7'')) batch3 (Resolved True (Some [])) upload0)
       = None"
proof -
  have n: "utf16 ''7'' \<noteq> []" and b: "batch3 \<noteq> []" and r0: "requests upload0 = []"
    by (simp_all add: batch3_def upload0_def)
  have d: "Resolved False (Some (Some (utf16 ''Unsupported file type''))) = Rejected
           \<or> Resolved False (Some (Some (utf16 ''Unsupported file type'')))
              = Resolved False (Some (Some (utf16 ''Unsupported file type'')))"
    by simp
  note spec = handleFileUpload_partial_failure [OF n d, of "utf16 ''a.pdf''" None "utf16 ''b.pdf''"
      "utf16 ''c.pdf''" None upload0 "Resolved True (Some [])", folded batch3_def]
  from spec have p: "progress (uploadBatch (utf16 ''7'') batch3 upload0)
                       = Some \<lparr>current = 2, total_p = 3\<rparr>"
    by blast
  from spec r0 have r: "requests (handleFileUpload (Some (utf16 ''7'')) batch3 (Resolved True (Some [])) upload0)
       = [UploadDocument (utf16 ''7'') (utf16 ''a.pdf''),
          UploadDocument (utf16 ''7'') (utf16 ''b.pdf''),
          UploadDocument (utf16 ''7'') (utf16 ''c.pdf''),
          ListDocuments (utf16 ''7'')]"
    by simp
  from spec obtain e where "uploadErrors (handleFileUpload (Some (utf16 ''7'')) batch3
                                   (Resolved True (Some [])) upload0) = [\<lparr>filename = utf16 ''b.pdf'', error = e\<rparr>]"
    by blast
  then have u: "map filename (uploadErrors (handleFileUpload (Some (utf16 ''7'')) batch3
                                   (Resolved True (Some [])) upload0)) = [utf16 ''b.pdf'']"
    by simp
  from spec b have c: "progress (handleFileUpload (Some (utf16 ''7'')) batch3 (Resolved True (Some [])) upload0)
       = None"
    by blast
  from n p r u c show ?thesis by blast
qed

end
